theory Spec2Isabelle
  imports Main "HOL-Library.Word"
begin

section \<open>The sample program \<open>samples/main.c\<close>\<close>

text \<open>
  The source is three C functions over \<open>int\<close>:
  \<^verbatim>\<open>
  static int local_f(int a)  { return a * 3; }
  extern int global_f(int a) { return a * 6; }
  int main() { int a, b; a = 5; b = 7;
               b = local_f(a); a = global_f(b); return a + b; }
  \<close>
  An \<open>int\<close> is modelled as a 32-bit word read in two's complement by \<open>sint\<close>.
  Signed overflow is undefined behaviour in C, so every signed operation is checked:
  it returns the error \<open>SignedOverflow\<close> when the mathematical result leaves the range
  of \<open>int\<close>, and the machine result otherwise.
\<close>

subsection \<open>The type \<open>int\<close> and its checked arithmetic\<close>

type_synonym cint = "32 word"

definition INT_MIN :: int where
  "INT_MIN = - 2147483648"

definition INT_MAX :: int where
  "INT_MAX = 2147483647"

definition in_range :: "int \<Rightarrow> bool" where
  "in_range v = (INT_MIN \<le> v \<and> v \<le> INT_MAX)"

datatype error = SignedOverflow

definition c_mul :: "cint \<Rightarrow> cint \<Rightarrow> error + cint" where
  "c_mul x y = (if in_range (sint x * sint y) then Inr (x * y) else Inl SignedOverflow)"

definition c_add :: "cint \<Rightarrow> cint \<Rightarrow> error + cint" where
  "c_add x y = (if in_range (sint x + sint y) then Inr (x + y) else Inl SignedOverflow)"

subsection \<open>The two functions\<close>

definition local_f :: "cint \<Rightarrow> error + cint" where
  "local_f a = c_mul a 3"

definition global_f :: "cint \<Rightarrow> error + cint" where
  "global_f a = c_mul a 6"

text \<open>
  The same two bodies on the machine, where the multiplication wraps around modulo
  \<open>2 ^ 32\<close> instead of being undefined.
\<close>

definition local_f_wrap :: "cint \<Rightarrow> cint" where
  "local_f_wrap a = a * 3"

definition global_f_wrap :: "cint \<Rightarrow> cint" where
  "global_f_wrap a = a * 6"

subsection \<open>The entry procedure\<close>

text \<open>
  The locals \<open>a\<close> and \<open>b\<close> of \<open>main\<close> are declared without an initialiser, so the frame
  \<open>main\<close> starts from is a parameter of the model. Each statement updates the frame;
  a call that overflows ends the run with its error.
\<close>

record main_locals =
  var_a :: cint
  var_b :: cint

definition main :: "main_locals \<Rightarrow> error + cint" where
  "main s0 =
     (let s1 = s0\<lparr>var_a := 5\<rparr>;
          s2 = s1\<lparr>var_b := 7\<rparr>
      in case local_f (var_a s2) of
           Inl e \<Rightarrow> Inl e
         | Inr r1 \<Rightarrow>
             (let s3 = s2\<lparr>var_b := r1\<rparr>
              in case global_f (var_b s3) of
                   Inl e \<Rightarrow> Inl e
                 | Inr r2 \<Rightarrow>
                     (let s4 = s3\<lparr>var_a := r2\<rparr>
                      in c_add (var_a s4) (var_b s4))))"

text \<open>
  The variant of \<open>main\<close> whose second assignment stores \<open>b0\<close> instead of \<open>7\<close>; every
  other statement is the one of \<open>main\<close>.
\<close>

definition main_variant :: "cint \<Rightarrow> main_locals \<Rightarrow> error + cint" where
  "main_variant b0 s0 =
     (let s1 = s0\<lparr>var_a := 5\<rparr>;
          s2 = s1\<lparr>var_b := b0\<rparr>
      in case local_f (var_a s2) of
           Inl e \<Rightarrow> Inl e
         | Inr r1 \<Rightarrow>
             (let s3 = s2\<lparr>var_b := r1\<rparr>
              in case global_f (var_b s3) of
                   Inl e \<Rightarrow> Inl e
                 | Inr r2 \<Rightarrow>
                     (let s4 = s3\<lparr>var_a := r2\<rparr>
                      in c_add (var_a s4) (var_b s4))))"

text \<open>Sequencing of two fallible computations: the first error ends the run.\<close>

definition bind_result :: "error + 'a \<Rightarrow> ('a \<Rightarrow> error + 'b) \<Rightarrow> error + 'b" where
  "bind_result m f = (case m of Inl e \<Rightarrow> Inl e | Inr v \<Rightarrow> f v)"

subsection \<open>The program as a transformer of memory\<close>

text \<open>
  A C function may read and write memory outside its own frame: globals, statics, what
  a pointer reaches. To state what the three functions do with it, each is modelled a
  second time as a function from its argument and the store (the memory outside the
  frames, from address to value) to its result and the store it leaves. The bodies are
  the ones of the source: none of them names anything but its parameter, its locals
  and constants, so the store is handed on as it came.
\<close>

type_synonym store = "nat \<Rightarrow> cint"

definition local_f_run :: "cint \<Rightarrow> store \<Rightarrow> (error + cint) \<times> store" where
  "local_f_run a m = (c_mul a 3, m)"

definition global_f_run :: "cint \<Rightarrow> store \<Rightarrow> (error + cint) \<times> store" where
  "global_f_run a m = (c_mul a 6, m)"

definition main_run :: "main_locals \<Rightarrow> store \<Rightarrow> (error + cint) \<times> store" where
  "main_run s0 m0 =
     (let s1 = s0\<lparr>var_a := 5\<rparr>;
          s2 = s1\<lparr>var_b := 7\<rparr>;
          (c1, m1) = local_f_run (var_a s2) m0
      in case c1 of
           Inl e \<Rightarrow> (Inl e, m1)
         | Inr r1 \<Rightarrow>
             (let s3 = s2\<lparr>var_b := r1\<rparr>;
                  (c2, m2) = global_f_run (var_b s3) m1
              in case c2 of
                   Inl e \<Rightarrow> (Inl e, m2)
                 | Inr r2 \<Rightarrow>
                     (let s4 = s3\<lparr>var_a := r2\<rparr>
                      in (c_add (var_a s4) (var_b s4), m2))))"

section \<open>Checked arithmetic agrees with the integers\<close>

lemma in_range_iff: "in_range v \<longleftrightarrow> - (2 ^ 31) \<le> v \<and> v < 2 ^ 31"
  by (auto simp: in_range_def INT_MIN_def INT_MAX_def)

lemma in_range_sint: "in_range (sint (x :: cint))"
  using sint_ge [of x] sint_lt [of x] by (simp add: in_range_iff)

lemma sint_mul_in_range:
  fixes x y :: cint
  assumes "in_range (sint x * sint y)"
  shows "sint (x * y) = sint x * sint y"
proof -
  have "sint (x * y) = signed_take_bit 31 (sint x * sint y)"
    by (simp add: sint_word_mult)
  also have "\<dots> = sint x * sint y"
    using assms by (intro signed_take_bit_int_eq_self) (simp_all add: in_range_iff)
  finally show ?thesis .
qed

lemma sint_add_in_range:
  fixes x y :: cint
  assumes "in_range (sint x + sint y)"
  shows "sint (x + y) = sint x + sint y"
proof -
  have "sint (x + y) = signed_take_bit 31 (sint x + sint y)"
    by (simp add: sint_word_add)
  also have "\<dots> = sint x + sint y"
    using assms by (intro signed_take_bit_int_eq_self) (simp_all add: in_range_iff)
  finally show ?thesis .
qed

lemma c_mul_Inr:
  "c_mul x y = Inr r \<longleftrightarrow> in_range (sint x * sint y) \<and> r = x * y"
  by (auto simp: c_mul_def)

lemma c_mul_Inl:
  "c_mul x y = Inl e \<longleftrightarrow> \<not> in_range (sint x * sint y)"
  by (cases e) (auto simp: c_mul_def)

lemma c_add_Inr:
  "c_add x y = Inr r \<longleftrightarrow> in_range (sint x + sint y) \<and> r = x + y"
  by (auto simp: c_add_def)

lemma local_f_5: "local_f 5 = Inr 15"
  by (simp add: local_f_def c_mul_def in_range_iff)

lemma global_f_15: "global_f 15 = Inr 90"
  by (simp add: global_f_def c_mul_def in_range_iff)

lemma c_add_90_15: "c_add 90 15 = Inr 105"
  by (simp add: c_add_def in_range_iff)

lemma main_value: "main s = Inr 105"
  by (simp add: main_def local_f_5 global_f_15 c_add_90_15)

lemma main_variant_value: "main_variant b0 s = Inr 105"
  by (simp add: main_variant_def local_f_5 global_f_15 c_add_90_15)

text \<open>The checked functions fail exactly when the product leaves the range of \<open>int\<close>.\<close>

lemma local_f_overflow: "local_f x = Inl SignedOverflow \<longleftrightarrow> \<not> in_range (3 * sint x)"
  by (simp add: local_f_def c_mul_Inl mult.commute)

lemma global_f_overflow: "global_f x = Inl SignedOverflow \<longleftrightarrow> \<not> in_range (6 * sint x)"
  by (simp add: global_f_def c_mul_Inl mult.commute)

text \<open>Where the checked functions return, they return the machine result.\<close>

lemma local_f_wrap_agrees: "local_f x = Inr r \<Longrightarrow> r = local_f_wrap x"
  by (simp add: local_f_def local_f_wrap_def c_mul_Inr)

lemma global_f_wrap_agrees: "global_f x = Inr r \<Longrightarrow> r = global_f_wrap x"
  by (simp add: global_f_def global_f_wrap_def c_mul_Inr)

lemma in_range_half: "in_range (v * 6) \<Longrightarrow> in_range (v * 3)"
  by (simp add: in_range_iff)

text \<open>The store-passing model computes what the value model computes.\<close>

lemma local_f_run_value: "fst (local_f_run a m) = local_f a"
  by (simp add: local_f_run_def local_f_def)

lemma global_f_run_value: "fst (global_f_run a m) = global_f a"
  by (simp add: global_f_run_def global_f_def)

lemma main_run_value: "fst (main_run s m) = main s"
  by (simp add: main_run_def main_def local_f_run_def global_f_run_def
      local_f_def global_f_def Let_def split: sum.splits)

section \<open>The properties of the sample\<close>

text \<open>
  C1. A run of \<open>main\<close> returns 105, from whatever frame it starts: \<open>local_f 5\<close> is 15,
  \<open>global_f 15\<close> is 90, and the checked sum of 90 and 15 is 105, which reads as the
  integer 105.
\<close>

theorem main_returns_105:
  "main s = Inr 105 \<and> sint (105 :: cint) = 105 \<and>
   local_f 5 = Inr 15 \<and> global_f 15 = Inr 90 \<and> c_add 90 15 = Inr 105"
  by (simp add: main_def local_f_def global_f_def c_mul_def c_add_def in_range_iff)

text \<open>
  C2. Whenever three times the argument is in the range of \<open>int\<close>, \<open>local_f\<close> returns,
  and the value it returns reads as three times the argument.
\<close>

theorem local_f_triples:
  assumes "in_range (3 * sint x)"
  shows "\<exists>r. local_f x = Inr r \<and> sint r = 3 * sint x"
proof -
  from assms have ok: "in_range (sint x * sint (3 :: cint))"
    by (simp add: mult.commute)
  then have "local_f x = Inr (x * 3)"
    by (simp add: local_f_def c_mul_def)
  moreover from ok have "sint (x * 3) = 3 * sint x"
    using sint_mul_in_range [of x 3] by simp
  ultimately show ?thesis by blast
qed

theorem local_f_triples_witness:
  "in_range (3 * sint (715827882 :: cint)) \<and>
   (\<exists>r. local_f 715827882 = Inr r \<and> sint r = 3 * sint (715827882 :: cint))"
proof -
  have h: "in_range (3 * sint (715827882 :: cint))"
    by (simp add: in_range_iff)
  show ?thesis using h local_f_triples [OF h] by blast
qed

text \<open>
  C3. Whenever six times the argument is in the range of \<open>int\<close>, \<open>global_f\<close> returns,
  and the value it returns reads as six times the argument.
\<close>

theorem global_f_sextuples:
  assumes "in_range (6 * sint x)"
  shows "\<exists>r. global_f x = Inr r \<and> sint r = 6 * sint x"
proof -
  from assms have ok: "in_range (sint x * sint (6 :: cint))"
    by (simp add: mult.commute)
  then have "global_f x = Inr (x * 6)"
    by (simp add: global_f_def c_mul_def)
  moreover from ok have "sint (x * 6) = 6 * sint x"
    using sint_mul_in_range [of x 6] by simp
  ultimately show ?thesis by blast
qed

theorem global_f_sextuples_witness:
  "in_range (6 * sint (- 357913941 :: cint)) \<and>
   (\<exists>r. global_f (- 357913941) = Inr r \<and> sint r = 6 * sint (- 357913941 :: cint))"
proof -
  have h: "in_range (6 * sint (- 357913941 :: cint))"
    by (simp add: in_range_iff)
  show ?thesis using h global_f_sextuples [OF h] by blast
qed

text \<open>
  C4. \<open>main\<close> is the composition of its two callees: it computes \<open>local_f 5\<close>, passes the
  result to \<open>global_f\<close>, and returns the checked sum of the two results. As integers,
  the value returned is the sum of what \<open>local_f 5\<close> and \<open>global_f (local_f 5)\<close> return.
\<close>

theorem main_is_composition:
  "main s = bind_result (local_f 5) (\<lambda>b. bind_result (global_f b) (\<lambda>a. c_add a b)) \<and>
   (\<exists>b a r. local_f 5 = Inr b \<and> global_f b = Inr a \<and> main s = Inr r \<and>
      sint r = sint b + sint a)"
proof
  show "main s = bind_result (local_f 5) (\<lambda>b. bind_result (global_f b) (\<lambda>a. c_add a b))"
    by (simp add: main_def bind_result_def split: sum.splits)
next
  have "local_f 5 = Inr 15 \<and> global_f 15 = Inr 90 \<and> main s = Inr 105 \<and>
        sint (105 :: cint) = sint (15 :: cint) + sint (90 :: cint)"
    by (simp add: local_f_5 global_f_15 main_value)
  then show "\<exists>b a r. local_f 5 = Inr b \<and> global_f b = Inr a \<and> main s = Inr r \<and>
      sint r = sint b + sint a"
    by blast
qed

text \<open>C5. On the argument 5, \<open>local_f\<close> returns 15.\<close>

theorem local_f_of_5: "local_f 5 = Inr 15 \<and> sint (15 :: cint) = 15"
  by (simp add: local_f_def c_mul_def in_range_iff)

text \<open>C6. On the argument 15, \<open>global_f\<close> returns 90.\<close>

theorem global_f_of_15: "global_f 15 = Inr 90 \<and> sint (90 :: cint) = 90"
  by (simp add: global_f_def c_mul_def in_range_iff)

text \<open>
  C7. The run of \<open>main\<close> never overflows: the two products it computes, 5 by 3 and
  15 by 6, and its sum of 90 and 15 are in the range of \<open>int\<close>, so neither callee nor
  the addition returns an error, and \<open>main\<close> returns a value from every starting frame.
\<close>

theorem main_no_overflow:
  "in_range (sint (5 :: cint) * sint (3 :: cint)) \<and>
   in_range (sint (15 :: cint) * sint (6 :: cint)) \<and>
   in_range (sint (90 :: cint) + sint (15 :: cint)) \<and>
   local_f 5 \<noteq> Inl e \<and> global_f 15 \<noteq> Inl e \<and> c_add 90 15 \<noteq> Inl e \<and>
   main s \<noteq> Inl e \<and> (\<exists>r. main s = Inr r)"
proof -
  have ops: "in_range (sint (5 :: cint) * sint (3 :: cint))"
    "in_range (sint (15 :: cint) * sint (6 :: cint))"
    "in_range (sint (90 :: cint) + sint (15 :: cint))"
    by (simp_all add: in_range_iff)
  have calls: "local_f 5 \<noteq> Inl e" "global_f 15 \<noteq> Inl e" "c_add 90 15 \<noteq> Inl e"
    by (simp_all add: local_f_5 global_f_15 c_add_90_15)
  have run: "main s \<noteq> Inl e" "\<exists>r. main s = Inr r"
    by (simp_all add: main_value)
  from ops calls run show ?thesis by blast
qed

text \<open>
  C8. The program is deterministic. \<open>local_f\<close> and \<open>global_f\<close> are pure: run on the
  same argument from two different stores they return the same result, the one of the
  value model, and each leaves the store it was given. Two runs of \<open>main\<close> return the
  same value and leave the store unchanged, whatever the two frames and the two stores
  hold when the runs start.
\<close>

theorem program_deterministic:
  "fst (local_f_run x m1) = fst (local_f_run x m2) \<and>
   fst (local_f_run x m1) = local_f x \<and> snd (local_f_run x m1) = m1 \<and>
   fst (global_f_run x m1) = fst (global_f_run x m2) \<and>
   fst (global_f_run x m1) = global_f x \<and> snd (global_f_run x m1) = m1 \<and>
   fst (main_run s1 m1) = fst (main_run s2 m2) \<and>
   fst (main_run s1 m1) = main s1 \<and> snd (main_run s1 m1) = m1 \<and>
   main s1 = main s2"
proof -
  have callee_l: "fst (local_f_run x m1) = fst (local_f_run x m2)"
    "fst (local_f_run x m1) = local_f x" "snd (local_f_run x m1) = m1"
    by (simp_all add: local_f_run_def local_f_def)
  have callee_g: "fst (global_f_run x m1) = fst (global_f_run x m2)"
    "fst (global_f_run x m1) = global_f x" "snd (global_f_run x m1) = m1"
    by (simp_all add: global_f_run_def global_f_def)
  have frames: "main s1 = main s2"
    by (simp add: main_def Let_def split: sum.splits)
  have run: "fst (main_run s m) = main s" "snd (main_run s m) = m" for s m
    by (simp_all add: main_run_def main_def local_f_run_def global_f_run_def
        local_f_def global_f_def Let_def split: sum.splits)
  from frames run have entry: "fst (main_run s1 m1) = fst (main_run s2 m2)"
    "fst (main_run s1 m1) = main s1" "snd (main_run s1 m1) = m1"
    by simp_all
  from callee_l callee_g entry frames show ?thesis by blast
qed

text \<open>
  C9. The assignment of 7 to \<open>b\<close> is a dead store: the variant of \<open>main\<close> that assigns
  any other value \<open>b0\<close> there returns what \<open>main\<close> returns, from any pair of starting
  frames.
\<close>

theorem main_dead_store: "main_variant b0 s = main s' \<and> main_variant 7 s = main s"
  by (simp add: main_variant_def main_def Let_def split: sum.splits)

text \<open>
  C10. \<open>global_f\<close> is twice \<open>local_f\<close>. With wrap-around multiplication this holds for
  every argument. With checked multiplication it holds whenever \<open>global_f\<close> returns:
  then \<open>local_f\<close> returns too, and the value of \<open>global_f\<close> is twice the value of
  \<open>local_f\<close>, as words and as integers.
\<close>

theorem global_f_twice_local_f:
  "global_f_wrap x = 2 * local_f_wrap x \<and>
   (global_f x = Inr g \<longrightarrow>
      (\<exists>l. local_f x = Inr l \<and> g = 2 * l \<and> sint g = 2 * sint l))"
proof
  show "global_f_wrap x = 2 * local_f_wrap x"
    by (simp add: global_f_wrap_def local_f_wrap_def)
next
  show "global_f x = Inr g \<longrightarrow>
      (\<exists>l. local_f x = Inr l \<and> g = 2 * l \<and> sint g = 2 * sint l)"
  proof
    assume "global_f x = Inr g"
    then have six: "in_range (sint x * 6)" and g: "g = x * 6"
      by (simp_all add: global_f_def c_mul_Inr)
    from six have three: "in_range (sint x * 3)"
      by (rule in_range_half)
    from three have l: "local_f x = Inr (x * 3)"
      by (simp add: local_f_def c_mul_def)
    from six have "sint (x * 6) = sint x * 6"
      using sint_mul_in_range [of x 6] by simp
    moreover from three have "sint (x * 3) = sint x * 3"
      using sint_mul_in_range [of x 3] by simp
    ultimately have "sint g = 2 * sint (x * 3)"
      using g by simp
    moreover have "g = 2 * (x * 3)"
      using g by simp
    ultimately show "\<exists>l. local_f x = Inr l \<and> g = 2 * l \<and> sint g = 2 * sint l"
      using l by blast
  qed
qed

theorem global_f_twice_local_f_witness:
  "global_f 5 = Inr 30 \<and> global_f_wrap 5 = 2 * local_f_wrap 5 \<and>
   (\<exists>l. local_f 5 = Inr l \<and> (30 :: cint) = 2 * l \<and> sint (30 :: cint) = 2 * sint l)"
proof -
  have h: "global_f 5 = Inr 30"
    by (simp add: global_f_def c_mul_def in_range_iff)
  show ?thesis
    using h global_f_twice_local_f [of 5 30] by blast
qed

end
